theory Spec2Isabelle
  imports
    Main
    "HOL-Library.FSet"
    "HOL-Library.AList"
    "HOL-Library.Char_ord"
    "HOL-Library.List_Lexorder"
    "HOL-Library.Sublist"
begin

section \<open>ipydeps: a shallow embedding of \<^verbatim>\<open>ipydeps/ipydeps.py\<close>\<close>

text \<open>
  The module is one linear orchestration function, \<^verbatim>\<open>pip\<close>, over small helpers.
  The embedding keeps the helpers' names and their order of statements.

  \<^item> A Python \<^verbatim>\<open>set\<close> of package names is a \<open>string fset\<close>. Where the source
    iterates over a set, the model iterates over \<open>sorted_list_of_fset\<close>: CPython's
    order is the hash order, which the language leaves open; no statement below
    depends on the order chosen.
  \<^item> A Python \<^verbatim>\<open>dict\<close> is an association list with \<open>AList.update\<close> as item
    assignment (a key that is present keeps its place, a new key goes last) and
    \<open>map_of\<close> as lookup.
  \<^item> An exception is a value of \<open>error\<close>; a function that logs, raises or
    talks to the outside world is a function from the program state to a result
    \<open>error + 'a\<close> and the next state.
  \<^item> Text (\<^verbatim>\<open>str\<close>) is a \<open>string\<close>, one character for each code point; the
    model covers the code points below 256.
  \<^item> A \<^verbatim>\<open>bytes\<close> value is what decoding it gives: \<open>Utf8 t\<close> is the UTF-8 encoding
    of the text \<open>t\<close>, \<open>Not_utf8\<close> stands for bytes that are not valid UTF-8, for which
    \<^verbatim>\<open>str(b, encoding='utf8')\<close> raises \<^verbatim>\<open>UnicodeDecodeError\<close>.
\<close>

subsection \<open>Exceptions, log records, external calls\<close>

datatype bytes = Utf8 string | Not_utf8

datatype error =
    NameError string
  | KeyError string
  | TypeError string
  | AttributeError string
  | ValueError string
  | UnicodeDecodeError string
  | URLError string
  | CalledProcessError int bytes

datatype level = DEBUG | INFO | WARNING | ERROR

type_synonym log_record = "level \<times> string"

text \<open>What the process does to the world outside, in the order it does it.\<close>

datatype call =
    Urlopen string bool
  | Check_output "string list" "(string \<times> string) list"
  | Add_entry string
  | Invalidate_caches
  | Sleep nat
  | Combine_key_and_cert string string string

record state =
  logged :: "log_record list"
  calls :: "call list"

type_synonym 'a io = "state \<Rightarrow> (error + 'a) \<times> state"

definition io_return :: "'a \<Rightarrow> 'a io" where
  "io_return x s = (Inr x, s)"

definition io_raise :: "error \<Rightarrow> 'a io" where
  "io_raise e s = (Inl e, s)"

definition io_bind :: "'a io \<Rightarrow> ('a \<Rightarrow> 'b io) \<Rightarrow> 'b io" where
  "io_bind m f s = (case m s of (Inl e, s') \<Rightarrow> (Inl e, s') | (Inr x, s') \<Rightarrow> f x s')"

definition io_then :: "unit io \<Rightarrow> 'b io \<Rightarrow> 'b io" where
  "io_then m k = io_bind m (\<lambda>_. k)"

definition logger :: "level \<Rightarrow> string \<Rightarrow> unit io" where
  "logger lvl msg s = (Inr (), s\<lparr>logged := logged s @ [(lvl, msg)]\<rparr>)"

definition perform :: "call \<Rightarrow> unit io" where
  "perform c s = (Inr (), s\<lparr>calls := calls s @ [c]\<rparr>)"

definition io_of :: "error + 'a \<Rightarrow> 'a io" where
  "io_of r = (case r of Inl e \<Rightarrow> io_raise e | Inr x \<Rightarrow> io_return x)"

text \<open>Reading a name that no scope binds.\<close>

definition unbound :: "string \<Rightarrow> 'a io" where
  "unbound name = io_raise (NameError name)"

text \<open>A \<^verbatim>\<open>for\<close> loop whose body has effects: it stops at the first exception.\<close>

primrec for_each :: "'a list \<Rightarrow> ('a \<Rightarrow> unit io) \<Rightarrow> unit io" where
  "for_each [] body = io_return ()"
| "for_each (x # xs) body = io_then (body x) (for_each xs body)"

subsection \<open>Strings\<close>

text \<open>
  \<^verbatim>\<open>str(b, encoding='utf8')\<close>, the strict decoder.
\<close>

definition str_utf8 :: "bytes \<Rightarrow> error + string" where
  "str_utf8 b = (case b of Utf8 t \<Rightarrow> Inr t | Not_utf8 \<Rightarrow> Inl (UnicodeDecodeError ''utf-8''))"

text \<open>
  \<^verbatim>\<open>str.lower\<close> on the code points below 256: the capitals are \<^verbatim>\<open>A\<close>..\<^verbatim>\<open>Z\<close>
  (65..90) and U+00C0..U+00DE without the multiplication sign U+00D7; the small
  letter of each is 32 further on.
\<close>

definition lower_char :: "char \<Rightarrow> char" where
  "lower_char c =
     (let n = (of_char c :: nat)
      in if (65 \<le> n \<and> n \<le> 90) \<or> (192 \<le> n \<and> n \<le> 222 \<and> n \<noteq> 215)
         then char_of (n + 32) else c)"

definition lower :: "string \<Rightarrow> string" where
  "lower s = map lower_char s"

subsection \<open>Standard-library filtering\<close>

text \<open>
  \<^verbatim>\<open>stdlib_packages()\<close> lives in \<^verbatim>\<open>ipydeps/utils.py\<close>; its result is the
  parameter \<open>stdlib\<close>.
\<close>

definition stdlib_warning :: "string \<Rightarrow> log_record" where
  "stdlib_warning package =
     (WARNING, package @
        '' is part of the Python standard library and will be skipped.  Remove it from the list to remove this warning.'')"

definition subtract_stdlib :: "string fset \<Rightarrow> string fset \<Rightarrow> string fset io" where
  "subtract_stdlib stdlib packages =
     io_then
       (for_each (sorted_list_of_fset (packages |\<inter>| stdlib))
          (\<lambda>package. logger (fst (stdlib_warning package)) (snd (stdlib_warning package))))
       (io_return (packages |-| stdlib))"

subsection \<open>Subtracting what is installed\<close>

text \<open>
  \<^verbatim>\<open>
  def subtract_installed(already_installed: Set, requested: Set) -> Set:
      requested_packages = set((p.lower() for p in requested))  # removes duplicates
      return packages - already_installed
  \<close>
  The name \<^verbatim>\<open>packages\<close> is neither a parameter nor a local of the function, and
  the module binds no global of that name, so evaluating the \<^verbatim>\<open>return\<close>
  expression raises \<^verbatim>\<open>NameError\<close> after the lowercased set has been built.
\<close>

definition subtract_installed :: "string fset \<Rightarrow> string fset \<Rightarrow> error + string fset" where
  "subtract_installed already_installed requested =
     (let requested_packages = lower |`| requested
      in Inl (NameError ''packages''))"

subsection \<open>Input normalization: the safelist pattern\<close>

text \<open>
  \<^verbatim>\<open>
  package_name_pattern = re.compile(
    r'([A-Za-z][A-Za-z0-9_\-]+((<|>|<=|>=|==)[0-9]+\.[0-9]+(\.[0-9]+)*)?)')
  \<close>
  A pattern is a value of \<open>regex\<close>; a character class is the list of its
  inclusive ranges. Groups only capture, so they leave no trace in the syntax
  tree; group 1 of this pattern is the whole match.
\<close>

datatype regex =
    Range "(char \<times> char) list"
  | Ch char
  | Seq regex regex
  | Alt regex regex
  | Opt regex
  | Star regex
  | Plus regex

definition in_ranges :: "(char \<times> char) list \<Rightarrow> char \<Rightarrow> bool" where
  "in_ranges rs c = list_ex (\<lambda>(lo, hi). lo \<le> c \<and> c \<le> hi) rs"

definition letter :: "(char \<times> char) list" where
  "letter = [(CHR ''A'', CHR ''Z''), (CHR ''a'', CHR ''z'')]"

definition name_char :: "(char \<times> char) list" where
  "name_char = [(CHR ''A'', CHR ''Z''), (CHR ''a'', CHR ''z''), (CHR ''0'', CHR ''9''),
                (CHR ''_'', CHR ''_''), (CHR ''-'', CHR ''-'')]"

definition digit :: "(char \<times> char) list" where
  "digit = [(CHR ''0'', CHR ''9'')]"

definition package_name_pattern :: regex where
  "package_name_pattern =
     Seq (Range letter)
      (Seq (Plus (Range name_char))
        (Opt
          (Seq (Alt (Ch CHR ''<'')
                 (Alt (Ch CHR ''>'')
                   (Alt (Seq (Ch CHR ''<'') (Ch CHR ''=''))
                     (Alt (Seq (Ch CHR ''>'') (Ch CHR ''=''))
                          (Seq (Ch CHR ''='') (Ch CHR ''=''))))))
            (Seq (Plus (Range digit))
              (Seq (Ch CHR ''.'')
                (Seq (Plus (Range digit))
                  (Star (Seq (Ch CHR ''.'') (Plus (Range digit))))))))))"

text \<open>
  Python's \<^verbatim>\<open>re\<close> is a backtracking matcher. \<open>rmatch r s\<close> lists what is left
  of \<open>s\<close> after each way of matching \<open>r\<close> at its start, in the order the matcher
  tries them: greedy repetition and option first, alternatives left to right. The
  head of the list is the match Python reports. An iteration of \<open>Star\<close> that
  consumes nothing is not repeated, as in \<^verbatim>\<open>re\<close>.
\<close>

fun rsize :: "regex \<Rightarrow> nat" where
  "rsize (Range rs) = 1"
| "rsize (Ch c) = 1"
| "rsize (Seq a b) = rsize a + rsize b + 1"
| "rsize (Alt a b) = rsize a + rsize b + 1"
| "rsize (Opt a) = rsize a + 1"
| "rsize (Star a) = rsize a + 1"
| "rsize (Plus a) = rsize a + 2"

function rmatch :: "regex \<Rightarrow> string \<Rightarrow> string list" where
  "rmatch (Range rs) s = (case s of [] \<Rightarrow> [] | c # cs \<Rightarrow> if in_ranges rs c then [cs] else [])"
| "rmatch (Ch a) s = (case s of [] \<Rightarrow> [] | c # cs \<Rightarrow> if c = a then [cs] else [])"
| "rmatch (Seq a b) s = concat (map (rmatch b) (rmatch a s))"
| "rmatch (Alt a b) s = rmatch a s @ rmatch b s"
| "rmatch (Opt a) s = rmatch a s @ [s]"
| "rmatch (Star a) s =
     concat (map (\<lambda>t. if length t < length s then rmatch (Star a) t else []) (rmatch a s)) @ [s]"
| "rmatch (Plus a) s = concat (map (rmatch (Star a)) (rmatch a s))"
  by pat_completeness auto
termination
  by (relation "measures [\<lambda>(r, s). rsize r, \<lambda>(r, s). length s]") auto

text \<open>\<^verbatim>\<open>pattern.match\<close> at the start of \<open>s\<close>: the length of the match, if any.\<close>

definition re_match :: "regex \<Rightarrow> string \<Rightarrow> nat option" where
  "re_match r s = (case rmatch r s of [] \<Rightarrow> None | t # _ \<Rightarrow> Some (length s - length t))"

text \<open>
  \<^verbatim>\<open>pattern.findall\<close>: scan from the left; where the pattern matches, keep the
  match and go on behind it, otherwise move one character on. (An empty match is
  kept and the scan moves one character on; the pattern of this module matches
  two characters at least, see \<open>package_name_pattern_consumes\<close>.)
\<close>

function findall :: "regex \<Rightarrow> string \<Rightarrow> string list" where
  "findall r s =
     (case re_match r s of
        None \<Rightarrow> (case s of [] \<Rightarrow> [] | _ # cs \<Rightarrow> findall r cs)
      | Some n \<Rightarrow>
          if n = 0 then [] # (case s of [] \<Rightarrow> [] | _ # cs \<Rightarrow> findall r cs)
          else take n s # findall r (drop n s))"
  by pat_completeness auto
termination
  by (relation "measure (\<lambda>(r, s). length s)") (auto simp: re_match_def split: list.splits)

declare rmatch.simps(6) [simp del]
declare findall.simps [simp del]

text \<open>
  \<^verbatim>\<open>
  def valid_pkg_names(s: str):
      return [x[0] for x in package_name_pattern.findall(s)]
  \<close>
  With groups in the pattern, \<^verbatim>\<open>findall\<close> returns the tuple of groups of each
  match, and \<^verbatim>\<open>x[0]\<close> is group 1, the whole match.
\<close>

definition valid_pkg_names :: "string \<Rightarrow> string list" where
  "valid_pkg_names s = findall package_name_pattern s"

text \<open>\<^verbatim>\<open>str.strip()\<close>: the characters below 256 for which \<^verbatim>\<open>str.isspace\<close> holds.\<close>

definition is_space :: "char \<Rightarrow> bool" where
  "is_space c =
     (let n = (of_char c :: nat)
      in (9 \<le> n \<and> n \<le> 13) \<or> (28 \<le> n \<and> n \<le> 32) \<or> n = 133 \<or> n = 160)"

definition strip :: "string \<Rightarrow> string" where
  "strip s = rev (dropWhile is_space (rev (dropWhile is_space s)))"

fun join :: "string \<Rightarrow> string list \<Rightarrow> string" where
  "join sep [] = []"
| "join sep [x] = x"
| "join sep (x # y # ys) = x @ sep @ join sep (y # ys)"

text \<open>
  \<^verbatim>\<open>
  def get_pkg_names(x: Union[str, Sequence]) -> Set:
      if isinstance(x, (list, tuple)):
          x = ' '.join(x)
      packages = (p.strip() for p in valid_pkg_names(x))
      return set(p for p in packages if len(p) > 0)
  \<close>
  The argument is a string, or a list or tuple of strings.
\<close>

datatype pkg_arg = Str string | Strs "string list"

definition as_text :: "pkg_arg \<Rightarrow> string" where
  "as_text x = (case x of Strs xs \<Rightarrow> join '' '' xs | Str s \<Rightarrow> s)"

definition get_pkg_names :: "pkg_arg \<Rightarrow> string fset" where
  "get_pkg_names x =
     (let x = as_text x;
          packages = map strip (valid_pkg_names x)
      in fset_of_list (filter (\<lambda>p. length p > 0) packages))"

subsection \<open>The language of a pattern\<close>

text \<open>
  What it means for a string to match a pattern as a whole, independently of the
  matcher: the usual language of a regular expression. \<open>may_use r\<close> holds of the
  characters that occur in the syntax tree of \<open>r\<close>.
\<close>

fun lang :: "regex \<Rightarrow> string set" where
  "lang (Range rs) = {[c] | c. in_ranges rs c}"
| "lang (Ch a) = {[a]}"
| "lang (Seq a b) = {u @ v | u v. u \<in> lang a \<and> v \<in> lang b}"
| "lang (Alt a b) = lang a \<union> lang b"
| "lang (Opt a) = insert [] (lang a)"
| "lang (Star a) = {concat us | us. set us \<subseteq> lang a}"
| "lang (Plus a) = {concat us | us. us \<noteq> [] \<and> set us \<subseteq> lang a}"

fun may_use :: "regex \<Rightarrow> char \<Rightarrow> bool" where
  "may_use (Range rs) c = in_ranges rs c"
| "may_use (Ch a) c = (c = a)"
| "may_use (Seq a b) c = (may_use a c \<or> may_use b c)"
| "may_use (Alt a b) c = (may_use a c \<or> may_use b c)"
| "may_use (Opt a) c = may_use a c"
| "may_use (Star a) c = may_use a c"
| "may_use (Plus a) c = may_use a c"

subsection \<open>The environment\<close>

text \<open>
  What the module takes from outside itself. The modules \<^verbatim>\<open>ipydeps/config.py\<close>
  and \<^verbatim>\<open>ipydeps/utils.py\<close> are not part of the sources at hand, so the results of
  \<^verbatim>\<open>config_dir(environ)\<close>, \<^verbatim>\<open>load_config(configs_path)\<close>,
  \<^verbatim>\<open>stdlib_packages()\<close> and the function \<^verbatim>\<open>normalize_package_names\<close> are
  parameters, as are the interpreter (\<^verbatim>\<open>sys\<close>), the file system, the network, the
  JSON decoder, the processes started and the credentials of \<^verbatim>\<open>pypki3\<close>. What a
  process or the package registry answers may depend on the calls made before.

  A \<^verbatim>\<open>Path\<close> is the text \<^verbatim>\<open>str\<close> gives for it. \<open>joinpath w dir name\<close> is
  \<^verbatim>\<open>pathlib\<close>'s \<^verbatim>\<open>dir / name\<close> for a name that is a string, and \<open>path_exists\<close> is
  \<^verbatim>\<open>Path.exists\<close>.

  The override document is a JSON object from version tags to objects from package
  names to lists of commands, a command being a list of arguments.
\<close>

type_synonym commands = "string list list"
type_synonym dep_table = "(string \<times> commands) list"
type_synonym dep_json = "(string \<times> dep_table) list"

record Config =
  dependencies_link :: string
  dependencies_link_requires_pki :: bool

text \<open>
  What \<^verbatim>\<open>urlopen\<close> does: it raises \<^verbatim>\<open>HTTPError\<close>, whose \<^verbatim>\<open>read()\<close> gives the
  body of the error response; or it raises an exception that is not an
  \<^verbatim>\<open>HTTPError\<close>; or it returns a response, whose \<^verbatim>\<open>read()\<close> gives the body.
\<close>

datatype urlopen_outcome =
    Raises_HTTPError bytes
  | Raises error
  | Response bytes

datatype json_outcome = JSONDecodeError string | Json dep_json

text \<open>A process exits with a code, its standard output and its standard error.\<close>

datatype proc_outcome = Exited int bytes bytes | Cannot_run error

record world =
  version_info :: "nat \<times> nat \<times> nat"
  executable :: string
  sys_path :: "string list"
  environ :: "(string \<times> string) list"
  config_dir :: "string option"
  load_config :: Config
  normalize_package_names :: "string fset \<Rightarrow> string fset"
  stdlib_packages :: "string fset"
  joinpath :: "string \<Rightarrow> string \<Rightarrow> string"
  path_exists :: "string \<Rightarrow> bool"
  urlopen :: "string \<Rightarrow> bool \<Rightarrow> urlopen_outcome"
  json_loads :: "string \<Rightarrow> json_outcome"
  run_process :: "call list \<Rightarrow> string list \<Rightarrow> (string \<times> string) list \<Rightarrow> proc_outcome"
  working_set :: "call list \<Rightarrow> string list"
  key_cert_paths :: "string \<times> string"
  ca_path :: string
  temp_path :: string

definition pip_run_args :: "world \<Rightarrow> string list" where
  "pip_run_args w = [executable w, ''-m'', ''pip'']"

subsection \<open>Version tags\<close>

fun str_nat :: "nat \<Rightarrow> string" where
  "str_nat n =
     (if n < 10 then [char_of (48 + n)] else str_nat (n div 10) @ [char_of (48 + n mod 10)])"

declare str_nat.simps [simp del]

definition py_name_micro :: "world \<Rightarrow> string" where
  "py_name_micro w =
     (case version_info w of (major, minor, micro) \<Rightarrow>
        ''python-'' @ str_nat major @ ''.'' @ str_nat minor @ ''.'' @ str_nat micro)"

definition py_name_minor :: "world \<Rightarrow> string" where
  "py_name_minor w =
     (case version_info w of (major, minor, micro) \<Rightarrow>
        ''python-'' @ str_nat major @ ''.'' @ str_nat minor)"

definition py_name_major :: "world \<Rightarrow> string" where
  "py_name_major w =
     (case version_info w of (major, minor, micro) \<Rightarrow> ''python-'' @ str_nat major)"

subsection \<open>Override resolution\<close>

text \<open>A loop that threads a value through its iterations and may raise.\<close>

primrec for_fold :: "'a list \<Rightarrow> ('a \<Rightarrow> 'b \<Rightarrow> 'b io) \<Rightarrow> 'b \<Rightarrow> 'b io" where
  "for_fold [] body acc = io_return acc"
| "for_fold (x # xs) body acc = io_bind (body x acc) (for_fold xs body)"

text \<open>
  \<^verbatim>\<open>
  def case_insensitive_dependencies_json(dep_json):
      lowercased = {}
      for version in dep_json:
          lowercased[version] = {}
          packages = dep_json[version]
          for pkg in packages:
              pkg = pkg.lower()
              cmds = packages[pkg]
              if pkg in lowercased[version]:
                  logger.warning('Duplicate package name %s in dependencies JSON.  Package names are case-insensitive.  Overwriting!', pkg)
              lowercased[version][pkg] = cmds
      return lowercased
  \<close>
  \<open>lowercase_package\<close> is the body of the inner loop, on the inner dictionary
  \<^verbatim>\<open>lowercased[version]\<close>. The loop variable is lowercased before it is used
  as the key into \<^verbatim>\<open>packages\<close>; a key that is absent there raises
  \<^verbatim>\<open>KeyError\<close>.
\<close>

definition duplicate_warning :: "string \<Rightarrow> string" where
  "duplicate_warning pkg =
     ''Duplicate package name '' @ pkg @
     '' in dependencies JSON.  Package names are case-insensitive.  Overwriting!''"

definition lowercase_package :: "dep_table \<Rightarrow> string \<Rightarrow> dep_table \<Rightarrow> dep_table io" where
  "lowercase_package packages pkg0 lowercased_version =
     (let pkg = lower pkg0
      in case map_of packages pkg of
           None \<Rightarrow> io_raise (KeyError pkg)
         | Some cmds \<Rightarrow>
             io_then
               (if pkg \<in> set (map fst lowercased_version)
                then logger WARNING (duplicate_warning pkg) else io_return ())
               (io_return (AList.update pkg cmds lowercased_version)))"

definition lowercase_version :: "dep_json \<Rightarrow> string \<Rightarrow> dep_json \<Rightarrow> dep_json io" where
  "lowercase_version dep_json version lowercased =
     (case map_of dep_json version of
        None \<Rightarrow> io_raise (KeyError version)
      | Some packages \<Rightarrow>
          io_bind (for_fold (map fst packages) (lowercase_package packages) [])
            (\<lambda>lowercased_version.
               io_return (AList.update version lowercased_version lowercased)))"

definition case_insensitive_dependencies_json :: "dep_json \<Rightarrow> dep_json io" where
  "case_insensitive_dependencies_json dep_json =
     for_fold (map fst dep_json) (lowercase_version dep_json) []"

text \<open>
  \<^verbatim>\<open>
  def read_dependencies_json(config):
      urlopener = get_dependencies_link_urlopener(config)
      try:
          resp = urlopener(config.dependencies_link)
      except HTTPError as e:
          logger.error(str(e.read(), encoding='utf8'))
          return {}
      d = str(resp.read(), encoding='utf8')
      try:
          j = json.loads(d)
      except json.decoder.JSONDecodeError as e:
          logger.error(str(e))
          return {}
      return case_insensitive_dependencies_json(j)
  \<close>
  The opener is \<^verbatim>\<open>urlopen\<close>, with an SSL context when the configuration asks for
  PKI. Only \<^verbatim>\<open>HTTPError\<close> and \<^verbatim>\<open>JSONDecodeError\<close> are caught. The body of the
  error response is decoded inside the handler and the body of the response outside
  both \<^verbatim>\<open>try\<close> blocks, so a \<^verbatim>\<open>UnicodeDecodeError\<close> of either leaves the function.
\<close>

definition read_dependencies_json :: "Config \<Rightarrow> world \<Rightarrow> dep_json io" where
  "read_dependencies_json config w =
     io_then
       (perform (Urlopen (dependencies_link config) (dependencies_link_requires_pki config)))
       (case urlopen w (dependencies_link config) (dependencies_link_requires_pki config) of
          Raises_HTTPError body \<Rightarrow>
            io_bind (io_of (str_utf8 body))
              (\<lambda>text. io_then (logger ERROR text) (io_return []))
        | Raises e \<Rightarrow> io_raise e
        | Response body \<Rightarrow>
            io_bind (io_of (str_utf8 body))
              (\<lambda>d. case json_loads w d of
                      JSONDecodeError msg \<Rightarrow> io_then (logger ERROR msg) (io_return [])
                    | Json j \<Rightarrow> case_insensitive_dependencies_json j))"

text \<open>
  \<^verbatim>\<open>
      if major in dep_json:
          for pkg in packages:
              if pkg in dep_json[major]:
                  overrides[pkg] = dep_json[major][pkg]
  \<close>
  The source has this block three times, for \<^verbatim>\<open>major\<close>, \<^verbatim>\<open>minor\<close> and
  \<^verbatim>\<open>micro\<close>; \<open>check_tag\<close> is the block for one tag.
\<close>

definition check_tag ::
  "dep_json \<Rightarrow> string \<Rightarrow> string fset \<Rightarrow> dep_table \<Rightarrow> dep_table" where
  "check_tag dep_json tag packages overrides =
     (case map_of dep_json tag of
        None \<Rightarrow> overrides
      | Some table \<Rightarrow>
          fold (\<lambda>pkg overrides.
                  case map_of table pkg of
                    None \<Rightarrow> overrides
                  | Some cmds \<Rightarrow> AList.update pkg cmds overrides)
            (sorted_list_of_fset packages) overrides)"

definition find_overrides :: "string fset \<Rightarrow> Config \<Rightarrow> world \<Rightarrow> dep_table io" where
  "find_overrides packages config w =
     (if fcard packages = 0 then io_return []
      else
        io_bind (read_dependencies_json config w)
          (\<lambda>dep_json.
             let major = py_name_major w;
                 minor = py_name_minor w;
                 micro = py_name_micro w;
                 overrides = [];
                 overrides = check_tag dep_json major packages overrides;
                 overrides = check_tag dep_json minor packages overrides;
                 overrides = check_tag dep_json micro packages overrides
             in io_return overrides))"

text \<open>The entry of a package under a version tag of the table, if there is one.\<close>

definition override_entry :: "dep_json \<Rightarrow> string \<Rightarrow> string \<Rightarrow> commands option" where
  "override_entry dep_json tag pkg =
     (case map_of dep_json tag of None \<Rightarrow> None | Some table \<Rightarrow> map_of table pkg)"

subsection \<open>Subprocesses\<close>

text \<open>
  \<^verbatim>\<open>subprocess.check_output\<close> returns the standard output of a process that exits
  with code 0 and raises \<^verbatim>\<open>CalledProcessError\<close> for any other exit code; a
  process that cannot be started raises what the operating system reports.
\<close>

definition check_output :: "world \<Rightarrow> string list \<Rightarrow> (string \<times> string) list \<Rightarrow> bytes io" where
  "check_output w cmd env s =
     (let s' = s\<lparr>calls := calls s @ [Check_output cmd env]\<rparr>
      in case run_process w (calls s) cmd env of
           Cannot_run e \<Rightarrow> (Inl e, s')
         | Exited returncode out err \<Rightarrow>
             if returncode \<noteq> 0 then (Inl (CalledProcessError returncode err), s')
             else (Inr out, s'))"

text \<open>
  \<^verbatim>\<open>
  def run_get_stderr(cmd, env=environ) -> Tuple[int, Optional[str]]:
      returncode = 0
      err = None
      try:
          subprocess.check_output(cmd, stderr=subprocess.PIPE, env=env)
      except subprocess.CalledProcessError as e:
          returncode = e.returncode
          err = str(e.stderr, encoding='utf8')
      return returncode, err
  \<close>
  The standard error is decoded inside the handler: a \<^verbatim>\<open>UnicodeDecodeError\<close> leaves
  the function.
\<close>

definition run_get_stderr ::
  "world \<Rightarrow> string list \<Rightarrow> (string \<times> string) list \<Rightarrow> (int \<times> string option) io" where
  "run_get_stderr w cmd env s =
     (case check_output w cmd env s of
        (Inl (CalledProcessError returncode stderr), s') \<Rightarrow>
          (case str_utf8 stderr of
             Inl e \<Rightarrow> (Inl e, s')
           | Inr err \<Rightarrow> (Inr (returncode, Some err), s'))
      | (Inl e, s') \<Rightarrow> (Inl e, s')
      | (Inr out, s') \<Rightarrow> (Inr (0, None), s'))"

definition run_and_log_error :: "world \<Rightarrow> string list \<Rightarrow> unit io" where
  "run_and_log_error w cmd =
     io_bind (run_get_stderr w cmd (environ w))
       (\<lambda>(returncode, err).
          case err of
            Some text \<Rightarrow> if returncode \<noteq> 0 then logger ERROR text else io_return ()
          | None \<Rightarrow> io_return ())"

definition run_overrides :: "world \<Rightarrow> dep_table \<Rightarrow> unit io" where
  "run_overrides w overrides =
     for_each overrides
       (\<lambda>(name, cmds).
          io_then (logger INFO (''Executing overrides for '' @ name))
            (for_each cmds
               (\<lambda>command.
                  if length command > 0
                  then io_then (logger DEBUG (join '' '' command)) (run_and_log_error w command)
                  else io_return ())))"

definition run_pip ::
  "world \<Rightarrow> string list \<Rightarrow> bool \<Rightarrow> bool \<Rightarrow> string option \<Rightarrow> (int \<times> string option) io" where
  "run_pip w packages use_pki verbose pip_config_path =
     (let args = [''install''];
          args = (if verbose then args @ [''-vvv''] else args);
          env = environ w;
          env = (case pip_config_path of
                   Some p \<Rightarrow> AList.update ''PIP_CONFIG_FILE'' p env
                 | None \<Rightarrow> env)
      in if use_pki
         then
           (let key_path = fst (key_cert_paths w);
                cert_path = snd (key_cert_paths w);
                combined_key_cert_path = temp_path w
            in io_then (perform (Combine_key_and_cert combined_key_cert_path key_path cert_path))
                 (let args = args @ [''--client-cert='' @ combined_key_cert_path];
                      args = args @ [''--cert='' @ ca_path w]
                  in run_get_stderr w (pip_run_args w @ args @ packages) env))
         else run_get_stderr w (pip_run_args w @ args @ packages) env)"

definition invalidate_cache :: "unit io" where
  "invalidate_cache = io_then (perform Invalidate_caches) (perform (Sleep 2))"

definition refresh_available_packages :: "world \<Rightarrow> unit io" where
  "refresh_available_packages w = for_each (sys_path w) (\<lambda>entry. perform (Add_entry entry))"

subsection \<open>The installed set\<close>

text \<open>\<^verbatim>\<open>str.split(sep)\<close> for a separator that is not empty, and \<^verbatim>\<open>sub in s\<close>.\<close>

function split_acc :: "string \<Rightarrow> string \<Rightarrow> string \<Rightarrow> string list" where
  "split_acc sep acc s =
     (if s = [] then [rev acc]
      else if sep \<noteq> [] \<and> prefix sep s then rev acc # split_acc sep [] (drop (length sep) s)
      else split_acc sep (hd s # acc) (tl s))"
  by pat_completeness auto
termination
  by (relation "measure (\<lambda>(sep, acc, s). length s)") auto

declare split_acc.simps [simp del]

definition str_split :: "string \<Rightarrow> string \<Rightarrow> string list" where
  "str_split sep s = split_acc sep [] s"

fun contains :: "string \<Rightarrow> string \<Rightarrow> bool" where
  "contains sub [] = (sub = [])"
| "contains sub (c # cs) = (prefix sub (c # cs) \<or> contains sub cs)"

primrec try_map :: "('a \<Rightarrow> error + 'b) \<Rightarrow> 'a list \<Rightarrow> error + 'b list" where
  "try_map f [] = Inr []"
| "try_map f (x # xs) =
     (case f x of
        Inl e \<Rightarrow> Inl e
      | Inr y \<Rightarrow> (case try_map f xs of Inl e \<Rightarrow> Inl e | Inr ys \<Rightarrow> Inr (y # ys)))"

text \<open>
  \<^verbatim>\<open>
  def get_freeze_package_name(info):
      name, _ = info.split('==')
      return name.strip()
  \<close>
  Unpacking into two names raises \<^verbatim>\<open>ValueError\<close> unless the split has exactly
  two parts.
\<close>

definition get_freeze_package_name :: "string \<Rightarrow> error + string" where
  "get_freeze_package_name info =
     (case str_split ''=='' info of
        [name, _] \<Rightarrow> Inr (strip name)
      | _ \<Rightarrow> Inl (ValueError ''unpack''))"

text \<open>
  \<^verbatim>\<open>
  def process_pip_freeze_output(pkgs) -> list:
      pkgs = str(pkgs, encoding='utf8').split('\\n')
      pkgs = [p for p in pkgs if len(p) > 0 and '==' in p]
      pkgs = [get_freeze_package_name(p) for p in pkgs]
      return pkgs
  \<close>
\<close>

definition process_pip_freeze_output :: "bytes \<Rightarrow> error + string list" where
  "process_pip_freeze_output pkgs =
     (case str_utf8 pkgs of
        Inl e \<Rightarrow> Inl e
      | Inr text \<Rightarrow>
          (let pkgs = str_split [CHR 0x0A] text;
               pkgs = filter (\<lambda>p. length p > 0 \<and> contains ''=='' p) pkgs
           in try_map get_freeze_package_name pkgs))"

definition pip_freeze_packages :: "world \<Rightarrow> string list io" where
  "pip_freeze_packages w =
     io_bind (check_output w (pip_run_args w @ [''freeze'', ''--all'']) (environ w))
       (\<lambda>pkgs. io_of (process_pip_freeze_output pkgs))"

definition currently_installed :: "world \<Rightarrow> string fset io" where
  "currently_installed w =
     io_bind (\<lambda>s. (Inr (fset_of_list (working_set w (calls s))), s))
       (\<lambda>pr. io_bind (pip_freeze_packages w)
          (\<lambda>pkgs. let pf = fset_of_list pkgs in io_return (lower |`| (pr |\<union>| pf))))"

subsection \<open>Logging what is and what became installed\<close>

definition log_currently_installed :: "string fset \<Rightarrow> string fset \<Rightarrow> unit io" where
  "log_currently_installed before requested =
     (let already_installed = before |\<inter>| requested
      in if fcard already_installed > 0
         then logger INFO (''Packages currently installed: '' @
                join '', '' (sorted_list_of_fset already_installed))
         else io_return ())"

definition log_before_after :: "string fset \<Rightarrow> string fset \<Rightarrow> unit io" where
  "log_before_after before after =
     (let new_packages = after |-| before
      in if fcard new_packages = 0 then logger WARNING ''No new packages installed''
         else if fcard new_packages > 0
         then logger INFO (''New packages installed: '' @
                join '', '' (sorted_list_of_fset new_packages))
         else io_return ())"

subsection \<open>The pip configuration file\<close>

text \<open>
  \<^verbatim>\<open>
  def find_pip_config_path(config_name: Optional[str], configs_path: Path):
      if configs_path is None:
          return None
      return configs_path / config_name
  \<close>
  \<^verbatim>\<open>Path.__truediv__\<close> raises \<^verbatim>\<open>TypeError\<close> for an operand that is \<^verbatim>\<open>None\<close>.
\<close>

definition find_pip_config_path ::
  "world \<Rightarrow> string option \<Rightarrow> string option \<Rightarrow> error + string option" where
  "find_pip_config_path w config_name configs_path =
     (case configs_path of
        None \<Rightarrow> Inr None
      | Some dir \<Rightarrow>
          (case config_name of
             None \<Rightarrow> Inl (TypeError ''unsupported operand type(s) for /'')
           | Some name \<Rightarrow> Inr (Some (joinpath w dir name))))"

text \<open>
  \<^verbatim>\<open>
  def pip_config_found(config_name: Optional[str], pip_config_path: Optional[Path]) -> bool:
      if config_name is None:
          return True
      if pip_config_path.exists():
          return True
      logger.error('Could not find pip config named %s at %s', config_name, pip_config_path)
      return False
  \<close>
\<close>

definition pip_config_found :: "world \<Rightarrow> string option \<Rightarrow> string option \<Rightarrow> bool io" where
  "pip_config_found w config_name pip_config_path =
     (case config_name of
        None \<Rightarrow> io_return True
      | Some name \<Rightarrow>
          (case pip_config_path of
             None \<Rightarrow> io_raise (AttributeError ''exists'')
           | Some p \<Rightarrow>
               if path_exists w p then io_return True
               else io_then
                      (logger ERROR (''Could not find pip config named '' @ name @ '' at '' @ p))
                      (io_return False)))"

subsection \<open>The entry point\<close>

text \<open>
  \<^verbatim>\<open>
  def pip(requested_packages, verbose=False, use_pki=False, use_overrides=True, config=None):
      configs_path = config_dir(environ)
      ipydeps_config = load_config(configs_path)
      pip_config_path = find_pip_config_path(config, configs_path)

      if not pip_config_found(config, pip_config_path):
          return

      packages_before_install = currently_installed()

      requested_packages = get_pkg_names(requested_packages)
      requested_packages = normalize_package_names(requested_packages)
      requested_packages = subtract_stdlib(requested_packages)

      # ignore items that have already been installed
      log_currently_installed(packages_before_install, requested_packages)
      requested_packages = subtract_installed(packages_before_install, requested_packages)

      if use_overrides:
          run_overrides(find_overrides(requested_packages, ipydeps_config))

      # now that overrides have run, calculate and subtract what's installed again
      refresh_available_packages()
      packages_to_install = list(subtract_installed(currently_installed(), requested_packages))

      if len(packages) > 0:
          logger.debug('Running pip to install %s', ', '.join(sorted(packages)))
          returncode, err = run_pip(packages_to_install, use_pki, verbose, pip_config_path)

          if returncode != 0 and err is not None:
              logger.error(err)

          invalidate_cache()
          refresh_available_packages()

      packages_after_install = currently_installed()
      log_before_after(packages_before_install, packages_after_install)
      logger.debug('Done')
  \<close>
  The function has no variable \<^verbatim>\<open>packages\<close> either, so the test before the
  install and the message inside it read an unbound name.
\<close>

definition pip ::
  "world \<Rightarrow> pkg_arg \<Rightarrow> bool \<Rightarrow> bool \<Rightarrow> bool \<Rightarrow> string option \<Rightarrow> unit io" where
  "pip w requested_packages verbose use_pki use_overrides config =
     (let configs_path = config_dir w;
          ipydeps_config = load_config w
      in
      io_bind (io_of (find_pip_config_path w config configs_path)) (\<lambda>pip_config_path.
      io_bind (pip_config_found w config pip_config_path) (\<lambda>found.
      if \<not> found then io_return ()
      else
      io_bind (currently_installed w) (\<lambda>packages_before_install.
      let requested_packages = get_pkg_names requested_packages;
          requested_packages = normalize_package_names w requested_packages
      in
      io_bind (subtract_stdlib (stdlib_packages w) requested_packages) (\<lambda>requested_packages.
      io_then (log_currently_installed packages_before_install requested_packages) (
      io_bind (io_of (subtract_installed packages_before_install requested_packages))
        (\<lambda>requested_packages.
      io_then
        (if use_overrides
         then io_bind (find_overrides requested_packages ipydeps_config w) (run_overrides w)
         else io_return ()) (
      io_then (refresh_available_packages w) (
      io_bind (currently_installed w) (\<lambda>installed.
      io_bind (io_of (subtract_installed installed requested_packages)) (\<lambda>remaining.
      let packages_to_install = sorted_list_of_fset remaining
      in
      io_then
        (io_bind (unbound ''packages'') (\<lambda>packages :: string list.
         if length packages > 0
         then
           io_then (logger DEBUG (''Running pip to install '' @ join '', '' (sort packages))) (
           io_bind (run_pip w packages_to_install use_pki verbose pip_config_path)
             (\<lambda>(returncode, err).
           io_then
             (case err of
                Some text \<Rightarrow> if returncode \<noteq> 0 then logger ERROR text else io_return ()
              | None \<Rightarrow> io_return ()) (
           io_then invalidate_cache (
           refresh_available_packages w))))
         else io_return ())) (
      io_bind (currently_installed w) (\<lambda>packages_after_install.
      io_then (log_before_after packages_before_install packages_after_install) (
      logger DEBUG ''Done''))))))))))))))"

subsection \<open>An environment to run the model in\<close>

text \<open>
  Python 3.11.4 on a POSIX system with \<^verbatim>\<open>pip\<close> installed, a configuration
  directory without pip configuration files, and an override document with entries
  for \<^verbatim>\<open>numpy\<close> at three levels and for \<^verbatim>\<open>pandas\<close> at two. Every process exits
  with code 0 and prints nothing.

  \<open>posix_join\<close> is \<^verbatim>\<open>PurePosixPath\<close>'s \<^verbatim>\<open>/\<close>: a path is a root (none, one slash,
  or two for exactly two leading slashes) and the parts between slashes that are
  neither empty nor a single dot; a name with a root replaces the directory.
\<close>

definition posix_parts :: "string \<Rightarrow> string \<times> string list" where
  "posix_parts p =
     (let stripped = dropWhile (\<lambda>c. c = CHR ''/'') p;
          slashes = length p - length stripped;
          root = (if slashes = 0 then [] else if slashes = 2 then ''//'' else ''/'')
      in (root, filter (\<lambda>x. x \<noteq> [] \<and> x \<noteq> ''.'') (str_split ''/'' stripped)))"

definition posix_join :: "string \<Rightarrow> string \<Rightarrow> string" where
  "posix_join dir name =
     (case (posix_parts dir, posix_parts name) of
        ((root1, parts1), (root2, parts2)) \<Rightarrow>
          (let root = (if root2 \<noteq> [] then root2 else root1);
               parts = (if root2 \<noteq> [] then parts2 else parts1 @ parts2)
           in if root = [] \<and> parts = [] then ''.'' else root @ join ''/'' parts))"

definition example_document :: dep_json where
  "example_document =
     [(''python-3'',
         [(''numpy'', [[''echo'', ''major'']]), (''pandas'', [[''echo'', ''major'']])]),
      (''python-3.11'',
         [(''numpy'', [[''echo'', ''minor'']]), (''pandas'', [[''echo'', ''minor'']])]),
      (''python-3.11.4'',
         [(''numpy'', [[''echo'', ''micro'']])])]"

definition example_world :: world where
  "example_world =
     \<lparr>version_info = (3, 11, 4),
      executable = ''/usr/bin/python3'',
      sys_path = [''/usr/lib/python3.11''],
      environ = [(''HOME'', ''/home/user'')],
      config_dir = Some ''/home/user/.config/ipydeps'',
      load_config =
        \<lparr>dependencies_link = ''https://example.org/dependencies.json'',
         dependencies_link_requires_pki = False\<rparr>,
      normalize_package_names = (\<lambda>packages. lower |`| packages),
      stdlib_packages = {|''os'', ''sys''|},
      joinpath = posix_join,
      path_exists = (\<lambda>p. False),
      urlopen = (\<lambda>url pki. Response (Utf8 ''(the document)'')),
      json_loads = (\<lambda>d. Json example_document),
      run_process = (\<lambda>history cmd env. Exited 0 (Utf8 []) (Utf8 [])),
      working_set = (\<lambda>history. [''pip'']),
      key_cert_paths = (''/tmp/key.pem'', ''/tmp/cert.pem''),
      ca_path = ''/etc/ssl/ca.pem'',
      temp_path = ''/tmp/combined.pem''\<rparr>"

definition start :: state where
  "start = \<lparr>logged = [], calls = []\<rparr>"

section \<open>Properties\<close>

lemma for_each_logger:
  "for_each xs (\<lambda>x. logger (l x) (m x)) s =
     (Inr (), s\<lparr>logged := logged s @ map (\<lambda>x. (l x, m x)) xs\<rparr>)"
  by (induction xs arbitrary: s)
     (simp_all add: io_return_def io_then_def io_bind_def logger_def)

text \<open>
  C7. For every input package set, \<^verbatim>\<open>subtract_stdlib\<close> returns exactly the input
  set minus the standard-library set, raises nothing, and appends to the log one
  warning for each name of the intersection (each such name once) and nothing else.
\<close>

theorem subtract_stdlib_exact:
  "\<exists>ws. subtract_stdlib stdlib packages s =
          (Inr (packages |-| stdlib), s\<lparr>logged := logged s @ map stdlib_warning ws\<rparr>)
      \<and> distinct ws \<and> fset_of_list ws = packages |\<inter>| stdlib"
proof -
  let ?ws = "sorted_list_of_fset (packages |\<inter>| stdlib)"
  have "subtract_stdlib stdlib packages s =
          (Inr (packages |-| stdlib), s\<lparr>logged := logged s @ map stdlib_warning ?ws\<rparr>)"
    by (simp add: subtract_stdlib_def io_then_def io_bind_def for_each_logger io_return_def)
  moreover have "distinct ?ws"
    by (simp add: sorted_list_of_fset.rep_eq)
  moreover have "fset_of_list ?ws = packages |\<inter>| stdlib"
    by simp
  ultimately show ?thesis by blast
qed

subsection \<open>The matcher is sound for the language\<close>

lemma rmatch_sound:
  "t \<in> set (rmatch r s) \<Longrightarrow> \<exists>m. s = m @ t \<and> m \<in> lang r"
proof (induction r s arbitrary: t rule: rmatch.induct)
  case (1 rs s)
  then show ?case by (auto split: list.splits if_splits)
next
  case (2 a s)
  then show ?case by (auto split: list.splits if_splits)
next
  case (3 a b s)
  from "3.prems" obtain u where u: "u \<in> set (rmatch a s)" and t: "t \<in> set (rmatch b u)"
    by auto
  from "3.IH"(1)[OF u] obtain m1 where m1: "s = m1 @ u" "m1 \<in> lang a" by blast
  from "3.IH"(2)[OF u t] obtain m2 where m2: "u = m2 @ t" "m2 \<in> lang b" by blast
  from m1 m2 have "s = (m1 @ m2) @ t \<and> m1 @ m2 \<in> lang (Seq a b)" by auto
  then show ?case by blast
next
  case (4 a b s)
  then show ?case by fastforce
next
  case (5 a s)
  then show ?case by fastforce
next
  case (6 a s)
  from "6.prems" consider
      (stop) "t = s"
    | (iter) u where "u \<in> set (rmatch a s)" "length u < length s" "t \<in> set (rmatch (Star a) u)"
    by (subst (asm) rmatch.simps(6)) (auto split: if_splits)
  then show ?case
  proof cases
    case stop
    have "concat [] \<in> lang (Star a)" by (simp del: concat.simps) (rule exI[of _ "[]"], simp)
    with stop show ?thesis by auto
  next
    case iter
    from "6.IH"(1)[OF iter(1)] obtain m1 where m1: "s = m1 @ u" "m1 \<in> lang a" by blast
    from "6.IH"(2)[OF iter(1) iter(2) iter(3)] obtain m2 where m2: "u = m2 @ t" "m2 \<in> lang (Star a)"
      by blast
    from m2(2) obtain us where us: "m2 = concat us" "set us \<subseteq> lang a" by auto
    have "m1 @ m2 = concat (m1 # us) \<and> set (m1 # us) \<subseteq> lang a" using us m1 by simp
    then have "m1 @ m2 \<in> lang (Star a)" unfolding lang.simps by blast
    with m1 m2 show ?thesis by (intro exI[of _ "m1 @ m2"]) simp
  qed
next
  case (7 a s)
  from "7.prems" obtain u where u: "u \<in> set (rmatch a s)" and t: "t \<in> set (rmatch (Star a) u)"
    by auto
  from "7.IH"(1)[OF u] obtain m1 where m1: "s = m1 @ u" "m1 \<in> lang a" by blast
  from "7.IH"(2)[OF u t] obtain m2 where m2: "u = m2 @ t" "m2 \<in> lang (Star a)" by blast
  from m2(2) obtain us where us: "m2 = concat us" "set us \<subseteq> lang a" by auto
  have "m1 @ m2 = concat (m1 # us) \<and> m1 # us \<noteq> [] \<and> set (m1 # us) \<subseteq> lang a" using us m1 by simp
  then have "m1 @ m2 \<in> lang (Plus a)" unfolding lang.simps by blast
  with m1 m2 show ?case by (intro exI[of _ "m1 @ m2"]) simp
qed

lemma re_match_sound:
  assumes "re_match r s = Some n"
  shows "n \<le> length s \<and> take n s \<in> lang r"
proof -
  from assms obtain t ts where ts: "rmatch r s = t # ts" and n: "n = length s - length t"
    by (auto simp: re_match_def split: list.splits)
  then have "t \<in> set (rmatch r s)" by simp
  from rmatch_sound[OF this] obtain m where "s = m @ t" "m \<in> lang r" by blast
  with n show ?thesis by simp
qed

lemma findall_sound:
  "m \<in> set (findall r s) \<Longrightarrow> m \<in> lang r \<and> sublist m s"
proof (induction r s rule: findall.induct)
  case (1 r s)
  show ?case
  proof (cases "re_match r s")
    case None
    with "1.prems" obtain c cs where s: "s = c # cs" and m: "m \<in> set (findall r cs)"
      by (subst (asm) findall.simps) (auto split: list.splits)
    from "1.IH"(1)[OF None s m] have "m \<in> lang r" "sublist m cs" by simp_all
    with s show ?thesis by (simp add: sublist_Cons_right)
  next
    case (Some n)
    note snd = re_match_sound[OF Some]
    show ?thesis
    proof (cases "n = 0")
      case True
      with "1.prems" Some consider (here) "m = []"
        | (later) c cs where "s = c # cs" "m \<in> set (findall r cs)"
        by (subst (asm) findall.simps) (auto split: list.splits)
      then show ?thesis
      proof cases
        case here
        with snd True show ?thesis by simp
      next
        case later
        from "1.IH"(2)[OF Some True later(1) later(2)] later(1)
        show ?thesis by (simp add: sublist_Cons_right)
      qed
    next
      case False
      with "1.prems" Some consider (here) "m = take n s" | (later) "m \<in> set (findall r (drop n s))"
        by (subst (asm) findall.simps) auto
      then show ?thesis
      proof cases
        case here
        have "sublist (take n s) s" by (metis append_take_drop_id sublist_appendI append_Nil)
        with here snd show ?thesis by simp
      next
        case later
        from "1.IH"(3)[OF Some False later] have "m \<in> lang r" "sublist m (drop n s)" by simp_all
        moreover have "sublist (drop n s) s" by (metis append_take_drop_id sublist_appendI append_Nil2)
        ultimately show ?thesis using sublist_order.order_trans by blast 
      qed
    qed
  qed
qed


lemma lang_chars: "m \<in> lang r \<Longrightarrow> c \<in> set m \<Longrightarrow> may_use r c"
  by (induction r arbitrary: m) (auto, blast+)

lemma pattern_no_space: "may_use package_name_pattern c \<Longrightarrow> \<not> is_space c"
  by (auto simp: package_name_pattern_def in_ranges_def letter_def name_char_def digit_def
        is_space_def less_eq_char_def Let_def)

lemma strip_id:
  assumes "\<forall>c \<in> set m. \<not> is_space c"
  shows "strip m = m"
proof -
  have keep: "dropWhile is_space xs = xs" if "\<forall>c \<in> set xs. \<not> is_space c" for xs
    using that by (cases xs) auto
  have a: "dropWhile is_space m = m" using assms by (rule keep)
  have b: "dropWhile is_space (rev m) = rev m" using assms by (intro keep) simp
  show ?thesis by (simp add: strip_def a b)
qed

lemma pattern_shape:
  assumes "m \<in> lang package_name_pattern"
  shows "2 \<le> length m \<and> in_ranges letter (m ! 0) \<and> in_ranges name_char (m ! 1)"
proof -
  from assms obtain c us v where m: "m = [c] @ concat us @ v" and c: "in_ranges letter c"
    and us: "us \<noteq> []" "set us \<subseteq> lang (Range name_char)"
    unfolding package_name_pattern_def lang.simps by blast
  from us obtain u us' where u: "us = u # us'" by (cases us) auto
  with us obtain d where d: "u = [d]" "in_ranges name_char d" by auto
  from m u d c show ?thesis by simp
qed

lemma package_name_pattern_consumes:
  "re_match package_name_pattern s = Some n \<Longrightarrow> 2 \<le> n"
  using re_match_sound[of package_name_pattern s n] pattern_shape[of "take n s"] by simp

lemma get_pkg_names_lang:
  assumes "p |\<in>| get_pkg_names x"
  shows "p \<in> lang package_name_pattern \<and> sublist p (as_text x) \<and> strip p = p"
proof -
  from assms obtain m where m: "m \<in> set (findall package_name_pattern (as_text x))"
    and p: "p = strip m"
    by (auto simp: get_pkg_names_def valid_pkg_names_def Let_def fset_of_list_elem)
  from findall_sound[OF m] have l: "m \<in> lang package_name_pattern" and sub: "sublist m (as_text x)"
    by simp_all
  have "\<forall>c \<in> set m. \<not> is_space c" using lang_chars[OF l] pattern_no_space by blast
  then have "strip m = m" by (rule strip_id)
  with p l sub show ?thesis by simp
qed

subsection \<open>Input normalization\<close>

text \<open>
  C8. For every input, a single string or a list of strings (joined with single
  spaces), \<^verbatim>\<open>get_pkg_names\<close> returns a set (it is a total function: nothing is
  raised) each of whose members matches the safelist pattern as a whole, is a
  contiguous substring of the input text, is not empty, and is trimmed.
\<close>

theorem get_pkg_names_safelist:
  assumes "p |\<in>| get_pkg_names x"
  shows "p \<in> lang package_name_pattern \<and> sublist p (as_text x) \<and> p \<noteq> [] \<and> strip p = p"
proof -
  from assms have "p \<noteq> []"
    by (auto simp: get_pkg_names_def Let_def fset_of_list_elem)
  with get_pkg_names_lang[OF assms] show ?thesis by simp
qed

theorem get_pkg_names_safelist_witness:
  "get_pkg_names (Strs [''numpy'', ''os'', ''not a valid!!pkg'', ''numpy'']) =
     {|''numpy'', ''os'', ''not'', ''valid'', ''pkg''|}
   \<and> ''valid'' \<in> lang package_name_pattern
   \<and> sublist ''valid'' (as_text (Strs [''numpy'', ''os'', ''not a valid!!pkg'', ''numpy'']))
   \<and> strip ''valid'' = ''valid''"
proof -
  have e: "get_pkg_names (Strs [''numpy'', ''os'', ''not a valid!!pkg'', ''numpy'']) =
     {|''numpy'', ''os'', ''not'', ''valid'', ''pkg''|}"
    by code_simp
  then have h: "''valid'' |\<in>| get_pkg_names (Strs [''numpy'', ''os'', ''not a valid!!pkg'', ''numpy''])"
    by simp
  from get_pkg_names_safelist[OF h] e show ?thesis by simp
qed

text \<open>
  C10. \<^verbatim>\<open>get_pkg_names\<close> never yields a name of one character: every member of
  its result starts with a letter followed by a letter, digit, underscore or
  hyphen, so it has two characters at least; a text of one character yields
  nothing.
\<close>

theorem get_pkg_names_two_chars:
  assumes "p |\<in>| get_pkg_names x"
  shows "2 \<le> length p \<and> in_ranges letter (p ! 0) \<and> in_ranges name_char (p ! 1)
         \<and> get_pkg_names (Str [c]) = {||}"
proof -
  have "get_pkg_names (Str [c]) = {||}"
    by (auto simp: get_pkg_names_def valid_pkg_names_def as_text_def findall.simps re_match_def
          package_name_pattern_def)
  with pattern_shape get_pkg_names_lang[OF assms] show ?thesis by blast
qed

theorem get_pkg_names_two_chars_witness:
  "get_pkg_names (Str ''q np r'') = {|''np''|} \<and> 2 \<le> length ''np''
   \<and> in_ranges letter (''np'' ! 0) \<and> in_ranges name_char (''np'' ! 1)
   \<and> get_pkg_names (Str ''q'') = {||}"
proof -
  have e: "get_pkg_names (Str ''q np r'') = {|''np''|}"
    by code_simp
  then have h: "''np'' |\<in>| get_pkg_names (Str ''q np r'')"
    by simp
  from get_pkg_names_two_chars[OF h, of "CHR ''q''"] e show ?thesis by simp
qed

subsection \<open>Override resolution\<close>

lemma fold_update_lookup:
  "map_of (fold (\<lambda>pkg ov. case map_of table pkg of None \<Rightarrow> ov
                          | Some cmds \<Rightarrow> AList.update pkg cmds ov) xs ov) p =
     (if p \<in> set xs then (case map_of table p of None \<Rightarrow> map_of ov p | Some c \<Rightarrow> Some c)
      else map_of ov p)"
  by (induction xs arbitrary: ov) (auto simp: update_conv' split: option.splits)

lemma check_tag_lookup:
  "map_of (check_tag dep_json tag packages ov) p =
     (case (if p |\<in>| packages then override_entry dep_json tag p else None) of
        None \<Rightarrow> map_of ov p
      | Some c \<Rightarrow> Some c)"
  by (auto simp: check_tag_def override_entry_def fold_update_lookup split: option.splits)

lemma update_fresh: "k \<notin> fst ` set al \<Longrightarrow> AList.update k v al = al @ [(k, v)]"
  by (induction al) auto

lemma lowercase_package_loop:
  assumes "distinct (map fst packages)"
    and "set ys \<subseteq> set packages"
    and "distinct (map fst (acc @ ys))"
    and "\<forall>k \<in> fst ` set ys. lower k = k"
  shows "for_fold (map fst ys) (lowercase_package packages) acc s = (Inr (acc @ ys), s)"
  using assms(2-4)
proof (induction ys arbitrary: acc)
  case Nil
  then show ?case by (simp add: io_return_def)
next
  case (Cons y ys)
  obtain k v where y: "y = (k, v)" by (cases y)
  from Cons.prems y assms(1) have look: "map_of packages k = Some v" by simp
  from Cons.prems y have low: "lower k = k" by simp
  from Cons.prems y have fresh: "k \<notin> fst ` set acc" by auto
  have step: "lowercase_package packages k acc s = (Inr (acc @ [(k, v)]), s)"
    using look low fresh
    by (simp add: lowercase_package_def Let_def io_then_def io_bind_def io_return_def update_fresh)
  have "for_fold (map fst ys) (lowercase_package packages) (acc @ [(k, v)]) s
          = (Inr ((acc @ [(k, v)]) @ ys), s)"
    using Cons.prems y by (intro Cons.IH) auto
  with step y show ?case by (simp add: io_bind_def)
qed

lemma lowercase_version_loop:
  assumes "distinct (map fst dep_json)"
    and "\<forall>(version, packages) \<in> set dep_json.
           distinct (map fst packages) \<and> (\<forall>k \<in> fst ` set packages. lower k = k)"
    and "set ys \<subseteq> set dep_json"
    and "distinct (map fst (acc @ ys))"
  shows "for_fold (map fst ys) (lowercase_version dep_json) acc s = (Inr (acc @ ys), s)"
  using assms(3,4)
proof (induction ys arbitrary: acc)
  case Nil
  then show ?case by (simp add: io_return_def)
next
  case (Cons y ys)
  obtain version packages where y: "y = (version, packages)" by (cases y)
  from Cons.prems y assms(1) have look: "map_of dep_json version = Some packages" by simp
  from Cons.prems y assms(2) have wf: "distinct (map fst packages)"
    "\<forall>k \<in> fst ` set packages. lower k = k" by auto
  from Cons.prems y have fresh: "version \<notin> fst ` set acc" by auto
  have inner: "for_fold (map fst packages) (lowercase_package packages) [] s = (Inr packages, s)"
    using lowercase_package_loop[of packages packages "[]" s] wf by simp
  have step: "lowercase_version dep_json version acc s = (Inr (acc @ [(version, packages)]), s)"
    using look fresh inner
    by (simp add: lowercase_version_def io_bind_def io_return_def update_fresh)
  have "for_fold (map fst ys) (lowercase_version dep_json) (acc @ [(version, packages)]) s
          = (Inr ((acc @ [(version, packages)]) @ ys), s)"
    using Cons.prems y by (intro Cons.IH) auto
  with step y show ?case by (simp add: io_bind_def)
qed

text \<open>
  On a document as the interface describes it (keys that differ, package names in
  lowercase) lowercasing changes nothing and logs nothing: the table consulted by
  \<^verbatim>\<open>find_overrides\<close> is the document itself.
\<close>

lemma case_insensitive_lowercase_document:
  assumes "distinct (map fst dep_json)"
    and "\<forall>(version, packages) \<in> set dep_json.
           distinct (map fst packages) \<and> (\<forall>k \<in> fst ` set packages. lower k = k)"
  shows "case_insensitive_dependencies_json dep_json s = (Inr dep_json, s)"
  using lowercase_version_loop[OF assms, of dep_json "[]" s] assms(1)
  by (simp add: case_insensitive_dependencies_json_def)

lemma lower_NumPy: "lower ''NumPy'' = ''numpy''"
  by code_simp

lemma lower_numpy: "lower ''numpy'' = ''numpy''"
  by code_simp

text \<open>
  C9. For the empty requested set \<^verbatim>\<open>find_overrides\<close> returns the empty override
  table and leaves the state as it was: no call is made (so the document is not
  fetched) and nothing is logged.
\<close>

theorem find_overrides_empty_no_fetch:
  "find_overrides {||} config w s = (Inr [], s)"
  by (simp add: find_overrides_def io_return_def)

text \<open>
  C3. Let \<open>dep_json\<close> be the table that \<^verbatim>\<open>read_dependencies_json\<close> returns for
  the fetched document. For every requested package, \<^verbatim>\<open>find_overrides\<close> returns
  an override table whose entry for the package is the entry under
  \<^verbatim>\<open>python-<major>.<minor>.<micro>\<close> if there is one, else the entry under
  \<^verbatim>\<open>python-<major>.<minor>\<close> if there is one, else the entry under
  \<^verbatim>\<open>python-<major>\<close> (none if there is none).
\<close>

theorem find_overrides_most_specific:
  assumes "read_dependencies_json config w s = (Inr dep_json, s')"
    and "pkg |\<in>| packages"
  shows "\<exists>overrides.
           find_overrides packages config w s = (Inr overrides, s')
         \<and> map_of overrides pkg =
             (case override_entry dep_json (py_name_micro w) pkg of
                Some cmds \<Rightarrow> Some cmds
              | None \<Rightarrow>
                 (case override_entry dep_json (py_name_minor w) pkg of
                    Some cmds \<Rightarrow> Some cmds
                  | None \<Rightarrow> override_entry dep_json (py_name_major w) pkg))"
proof -
  from assms(2) have ne: "fcard packages \<noteq> 0"
    by (metis fcard_fempty fcard_seteq fempty_fsubsetI fempty_iff le_refl)
  let ?ov = "check_tag dep_json (py_name_micro w) packages
              (check_tag dep_json (py_name_minor w) packages
                (check_tag dep_json (py_name_major w) packages []))"
  have "find_overrides packages config w s = (Inr ?ov, s')"
    using ne assms(1) by (simp add: find_overrides_def io_bind_def io_return_def Let_def)
  moreover have "map_of ?ov pkg =
             (case override_entry dep_json (py_name_micro w) pkg of
                Some cmds \<Rightarrow> Some cmds
              | None \<Rightarrow>
                 (case override_entry dep_json (py_name_minor w) pkg of
                    Some cmds \<Rightarrow> Some cmds
                  | None \<Rightarrow> override_entry dep_json (py_name_major w) pkg))"
    using assms(2) by (simp add: check_tag_lookup split: option.splits)
  ultimately show ?thesis by blast
qed

theorem find_overrides_most_specific_witness:
  "find_overrides {|''numpy'', ''pandas'', ''scipy''|} (load_config example_world) example_world start =
     (Inr [(''numpy'', [[''echo'', ''micro'']]), (''pandas'', [[''echo'', ''minor'']])],
      \<lparr>logged = [], calls = [Urlopen ''https://example.org/dependencies.json'' False]\<rparr>)
   \<and> override_entry example_document (py_name_micro example_world) ''numpy'' = Some [[''echo'', ''micro'']]
   \<and> override_entry example_document (py_name_minor example_world) ''numpy'' = Some [[''echo'', ''minor'']]
   \<and> override_entry example_document (py_name_major example_world) ''numpy'' = Some [[''echo'', ''major'']]"
proof -
  have r: "read_dependencies_json (load_config example_world) example_world start =
      (Inr example_document,
       \<lparr>logged = [], calls = [Urlopen ''https://example.org/dependencies.json'' False]\<rparr>)"
    by code_simp
  have m: "''numpy'' |\<in>| {|''numpy'', ''pandas'', ''scipy''|}"
    by simp
  have f: "find_overrides {|''numpy'', ''pandas'', ''scipy''|} (load_config example_world) example_world start =
     (Inr [(''numpy'', [[''echo'', ''micro'']]), (''pandas'', [[''echo'', ''minor'']])],
      \<lparr>logged = [], calls = [Urlopen ''https://example.org/dependencies.json'' False]\<rparr>)"
    by code_simp
  have e1: "override_entry example_document (py_name_micro example_world) ''numpy'' = Some [[''echo'', ''micro'']]"
    by code_simp
  have e2: "override_entry example_document (py_name_minor example_world) ''numpy'' = Some [[''echo'', ''minor'']]"
    by code_simp
  have e3: "override_entry example_document (py_name_major example_world) ''numpy'' = Some [[''echo'', ''major'']]"
    by code_simp
  from find_overrides_most_specific[OF r m] f e1 e2 e3 show ?thesis by simp
qed

text \<open>
  C4. Two documents at which the source departs from lowercasing with the commands
  of the original key. With the single key \<^verbatim>\<open>NumPy\<close> the lookup
  \<^verbatim>\<open>packages[pkg]\<close> is made with the lowercased key and raises
  \<^verbatim>\<open>KeyError\<close>. With the keys \<^verbatim>\<open>numpy\<close> and \<^verbatim>\<open>NumPy\<close>, in this order, the
  warning is logged, but the commands stored for the later key are again those of
  \<^verbatim>\<open>numpy\<close>: the later entry does not overwrite the earlier one.
\<close>

theorem case_insensitive_dependencies_json_uppercase:
  "case_insensitive_dependencies_json [(''python-3'', [(''NumPy'', [[''echo'', ''hi'']])])] s
     = (Inl (KeyError ''numpy''), s)
   \<and> case_insensitive_dependencies_json
       [(''python-3'', [(''numpy'', [[''echo'', ''first'']]), (''NumPy'', [[''echo'', ''second'']])])] s
     = (Inr [(''python-3'', [(''numpy'', [[''echo'', ''first'']])])],
        s\<lparr>logged := logged s @ [(WARNING, duplicate_warning ''numpy'')]\<rparr>)"
  by (simp add: case_insensitive_dependencies_json_def lowercase_version_def lowercase_package_def
       io_bind_def io_then_def io_raise_def io_return_def lower_NumPy lower_numpy logger_def Let_def)

text \<open>
  C5, as stated, fails: a network failure that is not an \<^verbatim>\<open>HTTPError\<close> (here
  \<^verbatim>\<open>URLError\<close> for a host name that does not resolve) is not caught.
  \<^verbatim>\<open>read_dependencies_json\<close> raises it and logs nothing.
\<close>

theorem read_dependencies_json_urlerror:
  "read_dependencies_json (load_config example_world)
     (example_world\<lparr>urlopen := (\<lambda>url pki. Raises (URLError ''Name or service not known''))\<rparr>)
     start
   = (Inl (URLError ''Name or service not known''),
      \<lparr>logged = [], calls = [Urlopen ''https://example.org/dependencies.json'' False]\<rparr>)"
  by code_simp

text \<open>
  C5, amended. When the opener raises \<^verbatim>\<open>HTTPError\<close> and the body of the error
  response is valid UTF-8, or the opener returns a body that is valid UTF-8 and
  makes \<^verbatim>\<open>json.loads\<close> raise \<^verbatim>\<open>JSONDecodeError\<close>, \<^verbatim>\<open>read_dependencies_json\<close>
  logs the error text and returns the empty table, and \<^verbatim>\<open>find_overrides\<close> returns
  the empty override table without raising. Every exception of the opener that is
  not an \<^verbatim>\<open>HTTPError\<close> leaves \<^verbatim>\<open>read_dependencies_json\<close> as it is, with nothing
  logged.
\<close>

theorem read_dependencies_json_caught:
  "((urlopen w (dependencies_link config) (dependencies_link_requires_pki config)
       = Raises_HTTPError (Utf8 msg)
     \<or> (\<exists>d. urlopen w (dependencies_link config) (dependencies_link_requires_pki config)
               = Response (Utf8 d) \<and> json_loads w d = JSONDecodeError msg))
    \<longrightarrow> read_dependencies_json config w s =
           (Inr [], s\<lparr>calls := calls s @ [Urlopen (dependencies_link config)
                                             (dependencies_link_requires_pki config)],
                      logged := logged s @ [(ERROR, msg)]\<rparr>)
        \<and> fst (find_overrides packages config w s) = Inr [])
   \<and> (urlopen w (dependencies_link config) (dependencies_link_requires_pki config) = Raises e
    \<longrightarrow> read_dependencies_json config w s =
           (Inl e, s\<lparr>calls := calls s @ [Urlopen (dependencies_link config)
                                            (dependencies_link_requires_pki config)]\<rparr>))"
proof (intro conjI impI)
  assume h: "urlopen w (dependencies_link config) (dependencies_link_requires_pki config)
       = Raises_HTTPError (Utf8 msg)
     \<or> (\<exists>d. urlopen w (dependencies_link config) (dependencies_link_requires_pki config)
               = Response (Utf8 d) \<and> json_loads w d = JSONDecodeError msg)"
  then show r: "read_dependencies_json config w s =
           (Inr [], s\<lparr>calls := calls s @ [Urlopen (dependencies_link config)
                                             (dependencies_link_requires_pki config)],
                      logged := logged s @ [(ERROR, msg)]\<rparr>)"
    by (auto simp: read_dependencies_json_def io_then_def io_bind_def perform_def logger_def
          io_return_def io_of_def str_utf8_def)
  show "fst (find_overrides packages config w s) = Inr []"
    by (simp add: find_overrides_def io_bind_def io_return_def r check_tag_def Let_def)
next
  assume "urlopen w (dependencies_link config) (dependencies_link_requires_pki config) = Raises e"
  then show "read_dependencies_json config w s =
           (Inl e, s\<lparr>calls := calls s @ [Urlopen (dependencies_link config)
                                            (dependencies_link_requires_pki config)]\<rparr>)"
    by (simp add: read_dependencies_json_def io_then_def io_bind_def perform_def io_raise_def)
qed

theorem read_dependencies_json_caught_witness:
  "read_dependencies_json (load_config example_world)
     (example_world\<lparr>urlopen := (\<lambda>url pki. Raises_HTTPError (Utf8 ''404 Not Found''))\<rparr>) start
   = (Inr [], \<lparr>logged = [(ERROR, ''404 Not Found'')],
               calls = [Urlopen ''https://example.org/dependencies.json'' False]\<rparr>)
   \<and> read_dependencies_json (load_config example_world)
     (example_world\<lparr>json_loads := (\<lambda>d. JSONDecodeError ''Expecting value'')\<rparr>) start
   = (Inr [], \<lparr>logged = [(ERROR, ''Expecting value'')],
               calls = [Urlopen ''https://example.org/dependencies.json'' False]\<rparr>)
   \<and> read_dependencies_json (load_config example_world)
     (example_world\<lparr>urlopen := (\<lambda>url pki. Raises (URLError ''Connection refused''))\<rparr>) start
   = (Inl (URLError ''Connection refused''),
      \<lparr>logged = [], calls = [Urlopen ''https://example.org/dependencies.json'' False]\<rparr>)"
proof -
  let ?w1 = "example_world\<lparr>urlopen := (\<lambda>url pki. Raises_HTTPError (Utf8 ''404 Not Found''))\<rparr>"
  let ?w2 = "example_world\<lparr>json_loads := (\<lambda>d. JSONDecodeError ''Expecting value'')\<rparr>"
  let ?w3 = "example_world\<lparr>urlopen := (\<lambda>url pki. Raises (URLError ''Connection refused''))\<rparr>"
  let ?c = "load_config example_world"
  have h1: "urlopen ?w1 (dependencies_link ?c) (dependencies_link_requires_pki ?c)
             = Raises_HTTPError (Utf8 ''404 Not Found'')
           \<or> (\<exists>d. urlopen ?w1 (dependencies_link ?c) (dependencies_link_requires_pki ?c)
                     = Response (Utf8 d) \<and> json_loads ?w1 d = JSONDecodeError ''404 Not Found'')"
    by simp
  have h2: "urlopen ?w2 (dependencies_link ?c) (dependencies_link_requires_pki ?c)
             = Raises_HTTPError (Utf8 ''Expecting value'')
           \<or> (\<exists>d. urlopen ?w2 (dependencies_link ?c) (dependencies_link_requires_pki ?c)
                     = Response (Utf8 d) \<and> json_loads ?w2 d = JSONDecodeError ''Expecting value'')"
    by (simp add: example_world_def)
  have h3: "urlopen ?w3 (dependencies_link ?c) (dependencies_link_requires_pki ?c)
             = Raises (URLError ''Connection refused'')"
    by simp
  from read_dependencies_json_caught[of ?w1 ?c "''404 Not Found''" start] h1
  have a: "read_dependencies_json ?c ?w1 start =
           (Inr [], start\<lparr>calls := calls start @ [Urlopen (dependencies_link ?c)
                                             (dependencies_link_requires_pki ?c)],
                      logged := logged start @ [(ERROR, ''404 Not Found'')]\<rparr>)"
    by blast
  from read_dependencies_json_caught[of ?w2 ?c "''Expecting value''" start] h2
  have b: "read_dependencies_json ?c ?w2 start =
           (Inr [], start\<lparr>calls := calls start @ [Urlopen (dependencies_link ?c)
                                             (dependencies_link_requires_pki ?c)],
                      logged := logged start @ [(ERROR, ''Expecting value'')]\<rparr>)"
    by blast
  from read_dependencies_json_caught[of ?w3 ?c _ start _ "URLError ''Connection refused''"] h3
  have c: "read_dependencies_json ?c ?w3 start =
           (Inl (URLError ''Connection refused''),
            start\<lparr>calls := calls start @ [Urlopen (dependencies_link ?c)
                                             (dependencies_link_requires_pki ?c)]\<rparr>)"
    by blast
  from a b c show ?thesis by (simp add: example_world_def start_def)
qed

subsection \<open>The entry point\<close>

lemma io_bind_Inr:
  "io_bind m f s = (Inr y, s') \<Longrightarrow> \<exists>x s1. m s = (Inr x, s1) \<and> f x s1 = (Inr y, s')"
  by (auto simp: io_bind_def split: prod.splits sum.splits)

lemma io_then_Inr:
  "io_then m k s = (Inr y, s') \<Longrightarrow> \<exists>s1. m s = (Inr (), s1) \<and> k s1 = (Inr y, s')"
  unfolding io_then_def by (drule io_bind_Inr) auto

text \<open>
  Once the configuration check has passed, \<^verbatim>\<open>pip\<close> does not return: the first
  call of \<^verbatim>\<open>subtract_installed\<close> raises, if nothing before it did.
\<close>

lemma pip_past_check:
  assumes "find_pip_config_path w config (config_dir w) = Inr p"
    and "pip_config_found w config p s = (Inr True, s1)"
  shows "pip w requested verbose use_pki use_overrides config s \<noteq> (Inr (), s')"
proof
  assume "pip w requested verbose use_pki use_overrides config s = (Inr (), s')"
  with assms show False
    unfolding pip_def Let_def
    by (auto dest!: io_bind_Inr io_then_Inr
             simp: io_of_def io_return_def io_raise_def subtract_installed_def)
qed

text \<open>
  The stop the source intends: a configuration is named, and the path that
  \<^verbatim>\<open>configs_path / config_name\<close> gives for it does not exist.
\<close>

lemma pip_config_missing:
  assumes "config_dir w = Some dir" and "\<not> path_exists w (joinpath w dir name)"
  shows "pip w requested verbose use_pki use_overrides (Some name) s =
           (Inr (), s\<lparr>logged := logged s @
              [(ERROR, ''Could not find pip config named '' @ name @ '' at '' @
                  joinpath w dir name)]\<rparr>)"
  using assms
  by (simp add: pip_def find_pip_config_path_def pip_config_found_def io_of_def io_bind_def
        io_then_def io_return_def logger_def)

lemma pip_config_missing_example:
  "pip example_world (Strs [''numpy'', ''pandas'']) False False True (Some ''internal.conf'') start =
     (Inr (), \<lparr>logged = [(ERROR,
        ''Could not find pip config named internal.conf at /home/user/.config/ipydeps/internal.conf'')],
        calls = []\<rparr>)"
  by code_simp

lemma pip_config_found_no_name: "pip_config_found w None pip_config_path s = (Inr True, s)"
  by (simp add: pip_config_found_def io_return_def)

subsection \<open>Claims about the entry point\<close>

text \<open>
  C1. With \<^verbatim>\<open>pip\<close> the only installed package, at the requested set
  \<open>{pip}\<close> the source's \<^verbatim>\<open>subtract_installed\<close> does not yield the empty set: it
  raises \<^verbatim>\<open>NameError\<close> for the unbound name \<^verbatim>\<open>packages\<close>. The entry point,
  asked for \<^verbatim>\<open>pip\<close>, logs that it is installed and then ends with that exception
  at its first call of \<^verbatim>\<open>subtract_installed\<close>.
\<close>

theorem subtract_installed_raises:
  "subtract_installed {|''pip''|} {|''pip''|} = Inl (NameError ''packages'')
   \<and> pip (example_world\<lparr>config_dir := None\<rparr>) (Str ''pip'') False False True None start =
       (Inl (NameError ''packages''),
        \<lparr>logged = [(INFO, ''Packages currently installed: pip'')],
         calls = [Check_output [''/usr/bin/python3'', ''-m'', ''pip'', ''freeze'', ''--all'']
                    [(''HOME'', ''/home/user'')]]\<rparr>)"
  by code_simp

text \<open>
  C2. Asked for \<^verbatim>\<open>numpy\<close>, which is not installed, with no configuration named,
  the source's \<^verbatim>\<open>pip\<close> does not run to completion: after the first computation of
  the installed set it ends with \<^verbatim>\<open>NameError\<close> at \<^verbatim>\<open>subtract_installed\<close>. No
  install subprocess has been started, so no exit code is captured or logged, and
  no before/after diff is reported.
\<close>

theorem pip_raises_before_install:
  "pip (example_world\<lparr>config_dir := None\<rparr>) (Str ''numpy'') False False True None start =
     (Inl (NameError ''packages''),
      \<lparr>logged = [],
       calls = [Check_output [''/usr/bin/python3'', ''-m'', ''pip'', ''freeze'', ''--all'']
                  [(''HOME'', ''/home/user'')]]\<rparr>)"
  by code_simp

text \<open>
  C6. Three calls at which the source's \<^verbatim>\<open>pip\<close> stops although no named
  configuration file is missing. With a configuration named and its file present,
  it ends with \<^verbatim>\<open>NameError\<close> at \<^verbatim>\<open>subtract_installed\<close>. With no configuration
  named and a configuration directory, \<^verbatim>\<open>configs_path / config_name\<close> raises
  \<^verbatim>\<open>TypeError\<close> before the check is reached. With a configuration named and no
  configuration directory, the check calls \<^verbatim>\<open>exists\<close> on \<^verbatim>\<open>None\<close> and raises
  \<^verbatim>\<open>AttributeError\<close>; nothing is logged.
\<close>

theorem pip_stops_without_missing_config:
  "pip (example_world\<lparr>path_exists := (\<lambda>p. True)\<rparr>) (Str ''numpy'') False False True
       (Some ''internal.conf'') start =
     (Inl (NameError ''packages''),
      \<lparr>logged = [],
       calls = [Check_output [''/usr/bin/python3'', ''-m'', ''pip'', ''freeze'', ''--all'']
                  [(''HOME'', ''/home/user'')]]\<rparr>)
   \<and> pip example_world (Str ''numpy'') False False True None start =
     (Inl (TypeError ''unsupported operand type(s) for /''), start)
   \<and> pip (example_world\<lparr>config_dir := None\<rparr>) (Str ''numpy'') False False True
       (Some ''internal.conf'') start =
     (Inl (AttributeError ''exists''), start)"
  by code_simp

end
